theory Spec2Isabelle
  imports Complex_Main "HOL-Library.Log_Nat"
begin

section \<open>Python values as the program sees them\<close>

text \<open>
  The program is \<^verbatim>\<open>src/weather.py\<close>. It reads JSON documents (parsed by
  \<^verbatim>\<open>response.json()\<close> into Python dicts, lists, strings, numbers, booleans and
  \<^verbatim>\<open>None\<close>) and renders them as text.

  A Python \<^verbatim>\<open>str\<close> is modelled as a \<open>string\<close> whose characters are code points
  below 256; the degree sign U+00B0 is the character \<open>0xB0\<close>.
\<close>

datatype pyerror =
    AttributeError | TypeError | ValueError | KeyError | IndexError
  | OverflowError | ZeroDivisionError

text \<open>
  A Python \<^verbatim>\<open>float\<close> is an IEEE 754 binary64 value: a sign bit with a magnitude
  (the exact rational value of the double), an infinity, or not-a-number. The
  sign bit is \<open>True\<close> for a negative value, so that \<^verbatim>\<open>-0.0\<close> is
  \<open>Finite True 0\<close>.
\<close>

datatype pyfloat = Finite bool rat | Infinity bool | NaN

datatype json =
    JNull
  | JBool bool
  | JInt int
  | JFloat pyfloat
  | JStr string
  | JArr "json list"
  | JObj "(string \<times> json) list"

subsection \<open>Rounding to binary64\<close>

definition pow2 :: "int \<Rightarrow> rat" where
  "pow2 e = (if 0 \<le> e then 2 ^ nat e else 1 / 2 ^ nat (- e))"

text \<open>\<open>floor_log2 q\<close> is the exponent \<open>e\<close> with \<open>2^e \<le> q < 2^(e+1)\<close>, for \<open>q > 0\<close>.\<close>

definition floor_log2 :: "rat \<Rightarrow> int" where
  "floor_log2 q =
     (let (a, b) = quotient_of q; d = bitlen a - bitlen b
      in if pow2 d \<le> q then d else d - 1)"

text \<open>Round to the nearest integer, ties to the even one.\<close>

definition round_half_even :: "rat \<Rightarrow> int" where
  "round_half_even r =
     (let f = \<lfloor>r\<rfloor>; d = r - of_int f
      in if d < 1 / 2 then f
         else if 1 / 2 < d then f + 1
         else if even f then f else f + 1)"

text \<open>
  \<open>float_round s q\<close> is the double nearest to the magnitude \<open>q \<ge> 0\<close> with sign
  \<open>s\<close> (round-half-even, 53-bit significand, subnormals below \<open>2^-1022\<close>,
  overflow to infinity).
\<close>

definition float_round :: "bool \<Rightarrow> rat \<Rightarrow> pyfloat" where
  "float_round s q =
     (if q = 0 then Finite s 0
      else
        let e = max (floor_log2 q) (- 1022);
            ulp = pow2 (e - 52);
            m = of_int (round_half_even (q / ulp)) * ulp
        in if 1024 \<le> floor_log2 m then Infinity s else Finite s m)"

definition float_of_rat :: "rat \<Rightarrow> pyfloat" where
  "float_of_rat r = float_round (r < 0) \<bar>r\<bar>"

subsection \<open>Arithmetic\<close>

text \<open>\<^verbatim>\<open>float(i)\<close>: correctly rounded, \<^verbatim>\<open>OverflowError\<close> when too large.\<close>

definition float_of_int :: "int \<Rightarrow> pyerror + pyfloat" where
  "float_of_int i =
     (case float_of_rat (of_int i) of
        Infinity _ \<Rightarrow> Inl OverflowError
      | f \<Rightarrow> Inr f)"

text \<open>\<^verbatim>\<open>a / b\<close> on two ints: the correctly rounded quotient.\<close>

definition int_truediv :: "int \<Rightarrow> int \<Rightarrow> pyerror + pyfloat" where
  "int_truediv a b =
     (if b = 0 then Inl ZeroDivisionError
      else if a = 0 then Inr (Finite (b < 0) 0)
      else case float_of_rat (of_int a / of_int b) of
             Infinity _ \<Rightarrow> Inl OverflowError
           | f \<Rightarrow> Inr f)"

fun float_mul :: "pyfloat \<Rightarrow> pyfloat \<Rightarrow> pyfloat" where
  "float_mul NaN _ = NaN"
| "float_mul _ NaN = NaN"
| "float_mul (Infinity s) (Infinity t) = Infinity (s \<noteq> t)"
| "float_mul (Infinity s) (Finite t q) = (if q = 0 then NaN else Infinity (s \<noteq> t))"
| "float_mul (Finite s p) (Infinity t) = (if p = 0 then NaN else Infinity (s \<noteq> t))"
| "float_mul (Finite s p) (Finite t q) = float_round (s \<noteq> t) (p * q)"

fun float_div :: "pyfloat \<Rightarrow> pyfloat \<Rightarrow> pyerror + pyfloat" where
  "float_div x (Finite t q) =
     (if q = 0 then Inl ZeroDivisionError
      else case x of
             NaN \<Rightarrow> Inr NaN
           | Infinity s \<Rightarrow> Inr (Infinity (s \<noteq> t))
           | Finite s p \<Rightarrow> Inr (float_round (s \<noteq> t) (p / q)))"
| "float_div NaN _ = Inr NaN"
| "float_div _ NaN = Inr NaN"
| "float_div (Infinity s) (Infinity t) = Inr NaN"
| "float_div (Finite s p) (Infinity t) = Inr (Finite (s \<noteq> t) 0)"

definition float_val :: "bool \<Rightarrow> rat \<Rightarrow> rat" where
  "float_val s q = (if s then - q else q)"

fun float_add :: "pyfloat \<Rightarrow> pyfloat \<Rightarrow> pyfloat" where
  "float_add NaN _ = NaN"
| "float_add _ NaN = NaN"
| "float_add (Infinity s) (Infinity t) = (if s = t then Infinity s else NaN)"
| "float_add (Infinity s) (Finite t q) = Infinity s"
| "float_add (Finite s p) (Infinity t) = Infinity t"
| "float_add (Finite s p) (Finite t q) =
     (let r = float_val s p + float_val t q
      in if r = 0 then Finite (s \<and> t) 0 else float_of_rat r)"

text \<open>The numbers of Python arithmetic: \<^verbatim>\<open>bool\<close> is a subclass of \<^verbatim>\<open>int\<close>.\<close>

datatype pynum = PInt int | PFloat pyfloat

fun as_num :: "json \<Rightarrow> pynum option" where
  "as_num (JBool b) = Some (PInt (if b then 1 else 0))"
| "as_num (JInt i) = Some (PInt i)"
| "as_num (JFloat f) = Some (PFloat f)"
| "as_num _ = None"

text \<open>\<^verbatim>\<open>float(x)\<close> for the implicit conversion of an operand or a format argument.\<close>

fun to_float :: "pynum \<Rightarrow> pyerror + pyfloat" where
  "to_float (PInt i) = float_of_int i"
| "to_float (PFloat f) = Inr f"

text \<open>\<^verbatim>\<open>x * k\<close> for an int literal \<^verbatim>\<open>k\<close>.\<close>

fun num_mul_int :: "pynum \<Rightarrow> int \<Rightarrow> pyerror + pynum" where
  "num_mul_int (PInt i) k = Inr (PInt (i * k))"
| "num_mul_int (PFloat f) k =
     (case float_of_int k of Inl e \<Rightarrow> Inl e | Inr g \<Rightarrow> Inr (PFloat (float_mul f g)))"

text \<open>\<^verbatim>\<open>x / k\<close> for an int literal \<^verbatim>\<open>k\<close>.\<close>

fun num_div_int :: "pynum \<Rightarrow> int \<Rightarrow> pyerror + pyfloat" where
  "num_div_int (PInt i) k = int_truediv i k"
| "num_div_int (PFloat f) k =
     (case float_of_int k of Inl e \<Rightarrow> Inl e | Inr g \<Rightarrow> float_div f g)"

text \<open>\<^verbatim>\<open>x / c\<close> for a float literal \<^verbatim>\<open>c\<close>.\<close>

definition num_div_float :: "pynum \<Rightarrow> pyfloat \<Rightarrow> pyerror + pyfloat" where
  "num_div_float x c =
     (case to_float x of Inl e \<Rightarrow> Inl e | Inr f \<Rightarrow> float_div f c)"

text \<open>\<^verbatim>\<open>x + k\<close> for a float \<^verbatim>\<open>x\<close> and an int literal \<^verbatim>\<open>k\<close>.\<close>

definition float_add_int :: "pyfloat \<Rightarrow> int \<Rightarrow> pyerror + pyfloat" where
  "float_add_int f k =
     (case float_of_int k of Inl e \<Rightarrow> Inl e | Inr g \<Rightarrow> Inr (float_add f g))"

subsection \<open>Text of numbers\<close>

text \<open>The last decimal digit of \<open>n\<close>.\<close>

definition digit_char :: "nat \<Rightarrow> char" where
  "digit_char n =
     (let d = n mod 10
      in if d = 0 then CHR ''0'' else if d = 1 then CHR ''1''
         else if d = 2 then CHR ''2'' else if d = 3 then CHR ''3''
         else if d = 4 then CHR ''4'' else if d = 5 then CHR ''5''
         else if d = 6 then CHR ''6'' else if d = 7 then CHR ''7''
         else if d = 8 then CHR ''8'' else CHR ''9'')"

function show_nat :: "nat \<Rightarrow> string" where
  "show_nat n = (if n < 10 then [digit_char n] else show_nat (n div 10) @ [digit_char n])"
  by pat_completeness auto
termination
  by (relation "measure id") auto

declare show_nat.simps [simp del]

text \<open>\<^verbatim>\<open>str(i)\<close> for an int.\<close>

definition show_int :: "int \<Rightarrow> string" where
  "show_int i = (if i < 0 then ''-'' @ show_nat (nat (- i)) else show_nat (nat i))"

text \<open>
  \<^verbatim>\<open>format(x, '.Nf')\<close> for a float: the exact value of the double, rounded
  half-even to \<open>N\<close> decimals; the sign is the sign bit's.
\<close>

definition fixed_digits :: "nat \<Rightarrow> rat \<Rightarrow> string" where
  "fixed_digits p q =
     (let ds = show_nat (nat (round_half_even (q * 10 ^ p)));
          padded = replicate (Suc p - length ds) (CHR ''0'') @ ds;
          k = length padded - p
      in take k padded @ (if p = 0 then [] else ''.'' @ drop k padded))"

fun format_f :: "nat \<Rightarrow> pyfloat \<Rightarrow> string" where
  "format_f p NaN = ''nan''"
| "format_f p (Infinity s) = (if s then ''-inf'' else ''inf'')"
| "format_f p (Finite s q) = (if s then ''-'' else []) @ fixed_digits p q"

text \<open>
  \<^verbatim>\<open>f"{v:.Nf}"\<close> for any JSON value that is not \<^verbatim>\<open>None\<close>: numbers are
  converted to float, a \<^verbatim>\<open>str\<close> raises \<^verbatim>\<open>ValueError\<close> (unknown format code),
  a list or dict \<^verbatim>\<open>TypeError\<close> (unsupported format string), as \<^verbatim>\<open>None\<close> would.
\<close>

fun format_value_f :: "nat \<Rightarrow> json \<Rightarrow> pyerror + string" where
  "format_value_f p (JStr s) = Inl ValueError"
| "format_value_f p v =
     (case as_num v of
        None \<Rightarrow> Inl TypeError
      | Some n \<Rightarrow> (case to_float n of Inl e \<Rightarrow> Inl e | Inr f \<Rightarrow> Inr (format_f p f)))"

section \<open>Dicts, strings and truth values\<close>

text \<open>Sequencing of steps that may raise: the first exception ends the function.\<close>

fun and_then :: "'e + 'a \<Rightarrow> ('a \<Rightarrow> 'e + 'b) \<Rightarrow> 'e + 'b" where
  "and_then (Inl e) f = Inl e"
| "and_then (Inr x) f = f x"

text \<open>
  \<^verbatim>\<open>d.get(key, default)\<close>: only a dict has \<^verbatim>\<open>get\<close>; on any other value the
  attribute lookup raises \<^verbatim>\<open>AttributeError\<close>.
\<close>

fun dict_get :: "json \<Rightarrow> string \<Rightarrow> json \<Rightarrow> pyerror + json" where
  "dict_get (JObj kvs) k d = Inr (case map_of kvs k of None \<Rightarrow> d | Some v \<Rightarrow> v)"
| "dict_get _ k d = Inl AttributeError"

text \<open>The truth value of \<^verbatim>\<open>if x:\<close>.\<close>

fun truthy :: "json \<Rightarrow> bool" where
  "truthy JNull = False"
| "truthy (JBool b) = b"
| "truthy (JInt i) = (i \<noteq> 0)"
| "truthy (JFloat (Finite s q)) = (q \<noteq> 0)"
| "truthy (JFloat _) = True"
| "truthy (JStr s) = (s \<noteq> [])"
| "truthy (JArr xs) = (xs \<noteq> [])"
| "truthy (JObj kvs) = (kvs \<noteq> [])"

text \<open>
  \<^verbatim>\<open>str(v)\<close>, as an f-string field \<^verbatim>\<open>{v}\<close> renders it. The text of a float,
  a list or a dict is Python's \<^verbatim>\<open>repr\<close>, which is not part of this program: it
  is the parameter \<open>repr\<close>.
\<close>

fun py_str :: "(json \<Rightarrow> string) \<Rightarrow> json \<Rightarrow> string" where
  "py_str repr JNull = ''None''"
| "py_str repr (JBool b) = (if b then ''True'' else ''False'')"
| "py_str repr (JInt i) = show_int i"
| "py_str repr (JStr s) = s"
| "py_str repr v = repr v"

text \<open>\<^verbatim>\<open>s.split(c)\<close> for a one-character separator; the result is never empty.\<close>

fun split_on :: "char \<Rightarrow> string \<Rightarrow> string list" where
  "split_on c [] = [[]]"
| "split_on c (x # xs) =
     (if x = c then [] # split_on c xs
      else case split_on c xs of
             [] \<Rightarrow> [[x]]
           | w # ws \<Rightarrow> (x # w) # ws)"

text \<open>\<^verbatim>\<open>v.split(c)[-1]\<close>: only a \<^verbatim>\<open>str\<close> has \<^verbatim>\<open>split\<close>.\<close>

fun last_segment :: "char \<Rightarrow> json \<Rightarrow> pyerror + string" where
  "last_segment c (JStr s) = Inr (last (split_on c s))"
| "last_segment c _ = Inl AttributeError"

text \<open>The characters \<^verbatim>\<open>str.strip()\<close> removes, among the code points below 256.\<close>

definition is_space :: "char \<Rightarrow> bool" where
  "is_space c =
     (let n = of_char c :: nat
      in (9 \<le> n \<and> n \<le> 13) \<or> (28 \<le> n \<and> n \<le> 32) \<or> n = 133 \<or> n = 160)"

definition strip :: "string \<Rightarrow> string" where
  "strip s = rev (dropWhile is_space (rev (dropWhile is_space s)))"

text \<open>\<^verbatim>\<open>sep.join(parts)\<close>.\<close>

fun join :: "string \<Rightarrow> string list \<Rightarrow> string" where
  "join sep [] = []"
| "join sep [x] = x"
| "join sep (x # y # ys) = x @ sep @ join sep (y # ys)"

text \<open>A list comprehension whose element expression may raise.\<close>

fun map_err :: "('a \<Rightarrow> 'e + 'b) \<Rightarrow> 'a list \<Rightarrow> 'e + 'b list" where
  "map_err f [] = Inr []"
| "map_err f (x # xs) =
     and_then (f x) (\<lambda>y. and_then (map_err f xs) (\<lambda>ys. Inr (y # ys)))"

text \<open>
  \<^verbatim>\<open>for x in v\<close>: a list gives its elements, a \<^verbatim>\<open>str\<close> its characters, a dict
  its keys; anything else is not iterable.
\<close>

fun py_iter :: "json \<Rightarrow> pyerror + json list" where
  "py_iter (JArr xs) = Inr xs"
| "py_iter (JStr s) = Inr (map (\<lambda>c. JStr [c]) s)"
| "py_iter (JObj kvs) = Inr (map (\<lambda>kv. JStr (fst kv)) kvs)"
| "py_iter _ = Inl TypeError"

definition deg :: string where
  "deg = [CHR 0xB0]"

definition nl :: string where
  "nl = [CHR 0x0A]"

section \<open>\<^verbatim>\<open>format_current_weather\<close>\<close>

text \<open>\<^verbatim>\<open>properties.get(key, {}).get('value')\<close>\<close>

definition measurement :: "json \<Rightarrow> string \<Rightarrow> pyerror + json" where
  "measurement properties key =
     and_then (dict_get properties key (JObj [])) (\<lambda>m. dict_get m ''value'' JNull)"

text \<open>
  \<^verbatim>\<open>(v * 9/5) + 32\<close>. On a value that is not a number, either \<^verbatim>\<open>v * 9\<close> (dict)
  or the division of its result (a repeated \<^verbatim>\<open>str\<close> or list) raises
  \<^verbatim>\<open>TypeError\<close>.
\<close>

definition to_fahrenheit :: "json \<Rightarrow> pyerror + pyfloat" where
  "to_fahrenheit v =
     (case as_num v of
        None \<Rightarrow> Inl TypeError
      | Some n \<Rightarrow>
          and_then (num_mul_int n 9) (\<lambda>a.
          and_then (num_div_int a 5) (\<lambda>b.
          float_add_int b 32)))"

text \<open>Lines 104-115.\<close>

definition temp_str :: "json \<Rightarrow> pyerror + string" where
  "temp_str properties =
     and_then (dict_get properties ''temperature'' (JObj [])) (\<lambda>temp.
     and_then (dict_get temp ''value'' JNull) (\<lambda>temp_value.
     and_then (dict_get temp ''unitCode'' (JStr [])) (\<lambda>unit_code.
     and_then (last_segment (CHR '':'') unit_code) (\<lambda>temp_unit.
       if temp_value \<noteq> JNull \<and> temp_unit = ''degC'' then
         and_then (to_fahrenheit temp_value) (\<lambda>temp_f.
         and_then (format_value_f 1 temp_value) (\<lambda>c.
           Inr (format_f 1 temp_f @ deg @ ''F ('' @ c @ deg @ ''C)'')))
       else if temp_value \<noteq> JNull then
         and_then (format_value_f 1 temp_value) (\<lambda>c. Inr (c @ deg @ temp_unit))
       else Inr ''N/A''))))"

text \<open>Lines 120-127.\<close>

definition wind_str :: "(json \<Rightarrow> string) \<Rightarrow> json \<Rightarrow> pyerror + string" where
  "wind_str repr properties =
     and_then (measurement properties ''windSpeed'') (\<lambda>wind_speed.
     and_then (measurement properties ''windDirection'') (\<lambda>wind_dir.
       if wind_speed \<noteq> JNull \<and> wind_dir \<noteq> JNull then
         and_then (format_value_f 1 wind_speed) (\<lambda>s.
           Inr (s @ '' km/h from '' @ py_str repr wind_dir @ deg))
       else Inr ''N/A''))"

text \<open>Lines 129-131.\<close>

definition humidity_str :: "json \<Rightarrow> pyerror + string" where
  "humidity_str properties =
     and_then (measurement properties ''relativeHumidity'') (\<lambda>humidity.
       if humidity \<noteq> JNull then
         and_then (format_value_f 0 humidity) (\<lambda>s. Inr (s @ ''%''))
       else Inr ''N/A'')"

text \<open>Lines 133-139. The dewpoint's \<^verbatim>\<open>unitCode\<close> is not read.\<close>

definition dewpoint_str :: "json \<Rightarrow> pyerror + string" where
  "dewpoint_str properties =
     and_then (measurement properties ''dewpoint'') (\<lambda>dewpoint.
       if dewpoint \<noteq> JNull then
         and_then (to_fahrenheit dewpoint) (\<lambda>dewpoint_f.
         and_then (format_value_f 1 dewpoint) (\<lambda>c.
           Inr (format_f 1 dewpoint_f @ deg @ ''F ('' @ c @ deg @ ''C)'')))
       else Inr ''N/A'')"

text \<open>Lines 141-147.\<close>

definition pressure_str :: "json \<Rightarrow> pyerror + string" where
  "pressure_str properties =
     and_then (measurement properties ''barometricPressure'') (\<lambda>pressure.
       if pressure \<noteq> JNull then
         (case as_num pressure of
            None \<Rightarrow> Inl TypeError
          | Some n \<Rightarrow>
              and_then (num_div_int n 100) (\<lambda>pressure_mb.
                Inr (format_f 1 pressure_mb @ '' mb'')))
       else Inr ''N/A'')"

text \<open>The float literal \<^verbatim>\<open>1609.34\<close>.\<close>

definition metres_per_mile :: pyfloat where
  "metres_per_mile = float_of_rat (160934 / 100)"

text \<open>Lines 149-155.\<close>

definition visibility_str :: "json \<Rightarrow> pyerror + string" where
  "visibility_str properties =
     and_then (measurement properties ''visibility'') (\<lambda>visibility.
       if visibility \<noteq> JNull then
         (case as_num visibility of
            None \<Rightarrow> Inl TypeError
          | Some n \<Rightarrow>
              and_then (num_div_float n metres_per_mile) (\<lambda>visibility_mi.
                Inr (format_f 1 visibility_mi @ '' mi'')))
       else Inr ''N/A'')"

text \<open>
  Lines 157-167. Both values are fetched before the branch; neither
  \<^verbatim>\<open>unitCode\<close> is read. The result is \<open>None\<close> where the source leaves
  \<^verbatim>\<open>feels_like_str = None\<close>.
\<close>

definition feels_like_str :: "json \<Rightarrow> pyerror + string option" where
  "feels_like_str properties =
     and_then (measurement properties ''windChill'') (\<lambda>wind_chill.
     and_then (measurement properties ''heatIndex'') (\<lambda>heat_index.
       if wind_chill \<noteq> JNull then
         and_then (to_fahrenheit wind_chill) (\<lambda>wind_chill_f.
           Inr (Some (format_f 1 wind_chill_f @ deg @ ''F (Wind Chill)'')))
       else if heat_index \<noteq> JNull then
         and_then (to_fahrenheit heat_index) (\<lambda>heat_index_f.
           Inr (Some (format_f 1 heat_index_f @ deg @ ''F (Heat Index)'')))
       else Inr None))"

text \<open>One element of the comprehension of lines 172-173.\<close>

definition cloud_layer_str :: "(json \<Rightarrow> string) \<Rightarrow> json \<Rightarrow> pyerror + string" where
  "cloud_layer_str repr layer =
     and_then (dict_get layer ''amount'' (JStr ''N/A'')) (\<lambda>amount.
     and_then (dict_get layer ''base'' (JObj [])) (\<lambda>base.
     and_then (dict_get base ''value'' (JStr ''N/A'')) (\<lambda>height.
       Inr (py_str repr amount @ '' at '' @ py_str repr height @ ''m''))))"

text \<open>Lines 169-175.\<close>

definition cloud_str :: "(json \<Rightarrow> string) \<Rightarrow> json \<Rightarrow> pyerror + string" where
  "cloud_str repr properties =
     and_then (dict_get properties ''cloudLayers'' (JArr [])) (\<lambda>cloud_layers.
       if truthy cloud_layers then
         and_then (py_iter cloud_layers) (\<lambda>layers.
         and_then (map_err (cloud_layer_str repr) layers) (\<lambda>parts.
           Inr (join '', '' parts)))
       else Inr ''N/A'')"

text \<open>Lines 177-182.\<close>

definition precip_str :: "json \<Rightarrow> pyerror + string" where
  "precip_str properties =
     and_then (measurement properties ''precipitationLastHour'') (\<lambda>precip_last_hour.
       if precip_last_hour \<noteq> JNull then
         and_then (format_value_f 2 precip_last_hour) (\<lambda>s. Inr (s @ '' mm''))
       else Inr ''N/A'')"

text \<open>
  The strings computed by lines 98-182, under the names of the source's
  variables (\<open>_s\<close> where a function above has the name).
\<close>

record observation =
  station :: string
  timestamp :: string
  description :: string
  temp_s :: string
  feels_like_s :: "string option"
  dewpoint_s :: string
  wind_s :: string
  humidity_s :: string
  pressure_s :: string
  visibility_s :: string
  cloud_s :: string
  precip_s :: string

text \<open>
  Lines 98-182, in the source's order, so that the first exception raised is the
  one returned. \<^verbatim>\<open>timestamp\<close> and \<^verbatim>\<open>description\<close> are rendered by the
  f-string with \<^verbatim>\<open>str\<close>.
\<close>

definition observation_strings :: "(json \<Rightarrow> string) \<Rightarrow> json \<Rightarrow> pyerror + observation" where
  "observation_strings repr data =
     and_then (dict_get data ''properties'' (JObj [])) (\<lambda>properties.
     and_then (dict_get properties ''station'' (JStr ''Unknown'')) (\<lambda>station_ref.
     and_then (last_segment (CHR ''/'') station_ref) (\<lambda>station_id.
     and_then (dict_get properties ''timestamp'' (JStr ''Unknown'')) (\<lambda>time.
     and_then (temp_str properties) (\<lambda>temp.
     and_then (dict_get properties ''textDescription'' (JStr ''N/A'')) (\<lambda>descr.
     and_then (wind_str repr properties) (\<lambda>wind.
     and_then (humidity_str properties) (\<lambda>humidity.
     and_then (dewpoint_str properties) (\<lambda>dewpoint.
     and_then (pressure_str properties) (\<lambda>pressure.
     and_then (visibility_str properties) (\<lambda>visibility.
     and_then (feels_like_str properties) (\<lambda>feels_like.
     and_then (cloud_str repr properties) (\<lambda>cloud.
     and_then (precip_str properties) (\<lambda>precip.
       Inr \<lparr>station = station_id,
            timestamp = py_str repr time,
            description = py_str repr descr,
            temp_s = temp,
            feels_like_s = feels_like,
            dewpoint_s = dewpoint,
            wind_s = wind,
            humidity_s = humidity,
            pressure_s = pressure,
            visibility_s = visibility,
            cloud_s = cloud,
            precip_s = precip\<rparr>
     ))))))))))))))"

text \<open>The first f-string, lines 184-189.\<close>

definition output_head :: "observation \<Rightarrow> string" where
  "output_head ob =
     nl @ ''Current Weather for '' @ station ob @ nl @
     replicate 40 (CHR ''='') @ nl @
     ''Time: '' @ timestamp ob @ nl @
     ''Conditions: '' @ description ob @ nl @
     ''Temperature: '' @ temp_s ob"

text \<open>Lines 191-192; a \<^verbatim>\<open>str\<close> is true when it is not empty.\<close>

definition feels_like_line :: "string option \<Rightarrow> string" where
  "feels_like_line feels_like =
     (case feels_like of
        None \<Rightarrow> []
      | Some s \<Rightarrow> if s \<noteq> [] then nl @ ''Feels Like: '' @ s else [])"

text \<open>The second f-string, lines 194-202.\<close>

definition output_tail :: "observation \<Rightarrow> string" where
  "output_tail ob =
     nl @ ''Dewpoint: '' @ dewpoint_s ob @ nl @
     ''Wind: '' @ wind_s ob @ nl @
     ''Humidity: '' @ humidity_s ob @ nl @
     ''Pressure: '' @ pressure_s ob @ nl @
     ''Visibility: '' @ visibility_s ob @ nl @
     ''Cloud Layers: '' @ cloud_s ob @ nl @
     ''Precipitation (last hour): '' @ precip_s ob @ nl"

definition format_current_weather :: "(json \<Rightarrow> string) \<Rightarrow> json \<Rightarrow> pyerror + string" where
  "format_current_weather repr data =
     and_then (observation_strings repr data) (\<lambda>ob.
       Inr (strip (output_head ob @ feels_like_line (feels_like_s ob) @ output_tail ob)))"

section \<open>\<^verbatim>\<open>format_forecast\<close>\<close>

text \<open>
  \<^verbatim>\<open>for period in periods[:14]\<close>: the slice of a list is its first 14 elements,
  the slice of a \<^verbatim>\<open>str\<close> its first 14 characters; a dict cannot be indexed by
  a slice and a number or boolean not at all (\<^verbatim>\<open>TypeError\<close>).
\<close>

fun first_14 :: "json \<Rightarrow> pyerror + json list" where
  "first_14 (JArr xs) = Inr (take 14 xs)"
| "first_14 (JStr s) = Inr (map (\<lambda>c. JStr [c]) (take 14 s))"
| "first_14 _ = Inl TypeError"

text \<open>The body of the loop, lines 220-231: the text appended for one period.\<close>

definition period_text :: "(json \<Rightarrow> string) \<Rightarrow> json \<Rightarrow> pyerror + string" where
  "period_text repr period =
     and_then (dict_get period ''name'' (JStr ''Unknown'')) (\<lambda>name.
     and_then (dict_get period ''temperature'' (JStr ''N/A'')) (\<lambda>temp.
     and_then (dict_get period ''temperatureUnit'' (JStr ''F'')) (\<lambda>temp_unit.
     and_then (dict_get period ''shortForecast'' (JStr ''N/A'')) (\<lambda>short_forecast.
     and_then (dict_get period ''detailedForecast'' (JStr [])) (\<lambda>detailed.
       Inr (py_str repr name @ '':'' @ nl @
            ''  Temperature: '' @ py_str repr temp @ deg @ py_str repr temp_unit @ nl @
            ''  '' @ py_str repr short_forecast @ nl @
            (if truthy detailed then ''  '' @ py_str repr detailed @ nl else []) @
            nl))))))"

text \<open>The loop: each period's text is appended to \<open>output\<close>, in order.\<close>

fun forecast_loop :: "(json \<Rightarrow> string) \<Rightarrow> string \<Rightarrow> json list \<Rightarrow> pyerror + string" where
  "forecast_loop repr output [] = Inr output"
| "forecast_loop repr output (period # rest) =
     and_then (period_text repr period) (\<lambda>t. forecast_loop repr (output @ t) rest)"

text \<open>Lines 215-216.\<close>

definition forecast_header :: string where
  "forecast_header = nl @ ''Weather Forecast'' @ nl @ replicate 40 (CHR ''='') @ nl @ nl"

definition format_forecast :: "(json \<Rightarrow> string) \<Rightarrow> json \<Rightarrow> pyerror + string" where
  "format_forecast repr data =
     and_then (dict_get data ''properties'' (JObj [])) (\<lambda>properties.
     and_then (dict_get properties ''periods'' (JArr [])) (\<lambda>periods.
       if \<not> truthy periods then Inr ''No forecast data available''
       else
         and_then (first_14 periods) (\<lambda>shown.
         and_then (forecast_loop repr forecast_header shown) (\<lambda>output.
           Inr (strip output)))))"

section \<open>The network and the process\<close>

text \<open>
  What \<^verbatim>\<open>requests.get(url, ...)\<close>, \<^verbatim>\<open>raise_for_status()\<close> and \<^verbatim>\<open>.json()\<close>
  give together: a \<^verbatim>\<open>RequestException\<close> with its message (connection error,
  timeout, a status of 400 or above, or a body that is not JSON, which
  \<^verbatim>\<open>requests\<close> reports as a \<^verbatim>\<open>RequestException\<close> since version 2.27), or
  the parsed document. The headers and the timeout are the same for every
  request and are not part of the log.
\<close>

datatype http_reply = RequestException string | Document json

text \<open>
  The world outside the process: the URLs requested so far, oldest first, and
  the lines printed on standard output and standard error. The network answers
  a URL knowing the URLs requested before it.
\<close>

record world =
  requested :: "string list"
  stdout :: "string list"
  stderr :: "string list"

type_synonym network = "string list \<Rightarrow> string \<Rightarrow> http_reply"

definition http_get :: "network \<Rightarrow> string \<Rightarrow> world \<Rightarrow> http_reply \<times> world" where
  "http_get net url w = (net (requested w) url, w\<lparr>requested := requested w @ [url]\<rparr>)"

definition print_out :: "string \<Rightarrow> world \<Rightarrow> world" where
  "print_out line w = w\<lparr>stdout := stdout w @ [line]\<rparr>"

definition print_err :: "string \<Rightarrow> world \<Rightarrow> world" where
  "print_err line w = w\<lparr>stderr := stderr w @ [line]\<rparr>"

section \<open>\<^verbatim>\<open>WeatherClient\<close>\<close>

definition BASE_URL :: string where
  "BASE_URL = ''https://api.weather.gov''"

record client =
  station_code :: string
  headers :: "(string \<times> string) list"

text \<open>
  \<^verbatim>\<open>__init__\<close>. Python's \<^verbatim>\<open>str.upper\<close> follows the Unicode case mapping, which
  is not part of this program: it is the parameter \<open>upper\<close>.
\<close>

definition WeatherClient :: "(string \<Rightarrow> string) \<Rightarrow> string \<Rightarrow> client" where
  "WeatherClient upper code =
     \<lparr>station_code = upper code,
      headers = [(''User-Agent'', ''(Weather CLI Tool, contact@example.com)''),
                 (''Accept'', ''application/json'')]\<rparr>"

definition get_current_weather :: "network \<Rightarrow> client \<Rightarrow> world \<Rightarrow> json option \<times> world" where
  "get_current_weather net self w =
     (let url = BASE_URL @ ''/stations/'' @ station_code self @ ''/observations/latest''
      in case http_get net url w of
           (RequestException e, w1) \<Rightarrow>
             (None, print_err (''Error fetching current weather: '' @ e) w1)
         | (Document d, w1) \<Rightarrow> (Some d, w1))"

text \<open>\<^verbatim>\<open>len(v)\<close>\<close>

fun py_len :: "json \<Rightarrow> pyerror + nat" where
  "py_len (JArr xs) = Inr (length xs)"
| "py_len (JStr s) = Inr (length s)"
| "py_len (JObj kvs) = Inr (length kvs)"
| "py_len _ = Inl TypeError"

text \<open>
  \<^verbatim>\<open>v[i]\<close> for \<open>i \<ge> 0\<close>. The keys of a parsed JSON object are strings, so an
  integer key is never found.
\<close>

fun py_index :: "json \<Rightarrow> nat \<Rightarrow> pyerror + json" where
  "py_index (JArr xs) i = (if i < length xs then Inr (xs ! i) else Inl IndexError)"
| "py_index (JStr s) i = (if i < length s then Inr (JStr [s ! i]) else Inl IndexError)"
| "py_index (JObj kvs) i = Inl KeyError"
| "py_index _ i = Inl TypeError"

text \<open>
  \<^verbatim>\<open>get_forecast\<close>, lines 54-92. An exception that is not a
  \<^verbatim>\<open>RequestException\<close> leaves the function (\<open>Inl\<close>). \<^verbatim>\<open>requests.get\<close> takes
  the text \<^verbatim>\<open>str(url)\<close> of whatever value it is given.
\<close>

definition get_forecast ::
  "(json \<Rightarrow> string) \<Rightarrow> network \<Rightarrow> client \<Rightarrow> world \<Rightarrow> (pyerror + json option) \<times> world" where
  "get_forecast repr net self w =
     (let station_url = BASE_URL @ ''/stations/'' @ station_code self
      in case http_get net station_url w of
           (RequestException e, w1) \<Rightarrow>
             (Inr None, print_err (''Error fetching forecast: '' @ e) w1)
         | (Document station_data, w1) \<Rightarrow>
        (case and_then (dict_get station_data ''geometry'' (JObj [])) (\<lambda>geometry.
              and_then (dict_get geometry ''coordinates'' (JArr [])) (\<lambda>coordinates.
              and_then (py_len coordinates) (\<lambda>n. Inr (coordinates, n)))) of
           Inl x \<Rightarrow> (Inl x, w1)
         | Inr (coordinates, n) \<Rightarrow>
        if n < 2 then
          (Inr None, print_err ''Error: Could not determine station coordinates'' w1)
        else
        (case and_then (py_index coordinates 0) (\<lambda>lon.
              and_then (py_index coordinates 1) (\<lambda>lat. Inr (lon, lat))) of
           Inl x \<Rightarrow> (Inl x, w1)
         | Inr (lon, lat) \<Rightarrow>
        (let points_url = BASE_URL @ ''/points/'' @ py_str repr lat @ '','' @ py_str repr lon
         in case http_get net points_url w1 of
           (RequestException e, w2) \<Rightarrow>
             (Inr None, print_err (''Error fetching forecast: '' @ e) w2)
         | (Document points_data, w2) \<Rightarrow>
        (case and_then (dict_get points_data ''properties'' (JObj [])) (\<lambda>properties.
              dict_get properties ''forecast'' JNull) of
           Inl x \<Rightarrow> (Inl x, w2)
         | Inr forecast_url \<Rightarrow>
        if \<not> truthy forecast_url then
          (Inr None, print_err ''Error: Could not determine forecast URL'' w2)
        else
        (case http_get net (py_str repr forecast_url) w2 of
           (RequestException e, w3) \<Rightarrow>
             (Inr None, print_err (''Error fetching forecast: '' @ e) w3)
         | (Document forecast, w3) \<Rightarrow> (Inr (Some forecast), w3)))))))"

section \<open>\<^verbatim>\<open>main\<close>\<close>

text \<open>
  How the process ends: \<^verbatim>\<open>main\<close> returns (status 0), \<^verbatim>\<open>sys.exit(n)\<close>, or an
  exception nobody catches (the interpreter prints a traceback and the status
  is 1).
\<close>

datatype ending = Finished | SysExit int | Uncaught pyerror

fun exit_status :: "ending \<Rightarrow> int" where
  "exit_status Finished = 0"
| "exit_status (SysExit n) = n"
| "exit_status (Uncaught e) = 1"

text \<open>
  Lines 267-280, the same for both modes: \<^verbatim>\<open>if data: print(render(data))\<close>
  \<^verbatim>\<open>else: sys.exit(1)\<close>.
\<close>

definition show_or_exit ::
  "(json \<Rightarrow> pyerror + string) \<Rightarrow> json option \<Rightarrow> world \<Rightarrow> ending \<times> world" where
  "show_or_exit render data w =
     (case data of
        None \<Rightarrow> (SysExit 1, w)
      | Some d \<Rightarrow>
          if truthy d then
            (case render d of
               Inl x \<Rightarrow> (Uncaught x, w)
             | Inr text \<Rightarrow> (Finished, print_out text w))
          else (SysExit 1, w))"

text \<open>
  \<^verbatim>\<open>main\<close> after \<^verbatim>\<open>parse_args\<close>: \<open>location\<close> and \<open>forecast\<close> are
  \<^verbatim>\<open>args.location\<close> and \<^verbatim>\<open>args.forecast\<close>.
\<close>

definition main ::
  "(string \<Rightarrow> string) \<Rightarrow> (json \<Rightarrow> string) \<Rightarrow> network \<Rightarrow> string \<Rightarrow> bool \<Rightarrow> world
     \<Rightarrow> ending \<times> world" where
  "main upper repr net location forecast w =
     (if length location \<noteq> 4 then
        (SysExit 1,
         print_err (''Error: Station code must be 4 characters (got '' @ [CHR 0x27] @
                    location @ [CHR 0x27] @ '')'') w)
      else
        let self = WeatherClient upper location
        in if forecast then
             (case get_forecast repr net self w of
                (Inl x, w1) \<Rightarrow> (Uncaught x, w1)
              | (Inr data, w1) \<Rightarrow> show_or_exit (format_forecast repr) data w1)
           else
             (case get_current_weather net self w of
                (data, w1) \<Rightarrow> show_or_exit (format_current_weather repr) data w1))"

definition world0 :: world where
  "world0 = \<lparr>requested = [], stdout = [], stderr = []\<rparr>"

section \<open>Example inputs\<close>

text \<open>A stand-in for Python's \<^verbatim>\<open>repr\<close> and a network that refuses every request.\<close>

definition no_repr :: "json \<Rightarrow> string" where
  "no_repr v = []"

definition offline :: network where
  "offline history url = RequestException ''offline''"

text \<open>A forecast document with periods named 1 to \<open>n\<close>.\<close>

definition numbered_period :: "int \<Rightarrow> json" where
  "numbered_period i = JObj [(''name'', JInt i), (''temperature'', JInt (50 + i))]"

definition numbered_forecast :: "int \<Rightarrow> json" where
  "numbered_forecast n =
     JObj [(''properties'', JObj [(''periods'', JArr (map numbered_period [1..n]))])]"

text \<open>A forecast whose only period has a name and nothing else.\<close>

definition sparse_forecast :: json where
  "sparse_forecast =
     JObj [(''properties'', JObj [(''periods'', JArr [JObj [(''name'', JStr ''Tonight'')]])])]"

text \<open>A barometric pressure of one standard atmosphere, in pascals.\<close>

definition standard_pressure :: json where
  "standard_pressure = JObj [(''barometricPressure'', JObj [(''value'', JInt 101325)])]"

text \<open>
  A reading of 50 whose unit code says Fahrenheit, as the temperature, the
  dewpoint and the wind chill of one observation, and as the heat index of
  another.
\<close>

definition fahrenheit_reading :: json where
  "fahrenheit_reading = JObj [(''value'', JInt 50), (''unitCode'', JStr ''wmoUnit:degF'')]"

definition fahrenheit_properties :: json where
  "fahrenheit_properties =
     JObj [(''temperature'', fahrenheit_reading), (''dewpoint'', fahrenheit_reading),
           (''windChill'', fahrenheit_reading)]"

definition fahrenheit_heat_properties :: json where
  "fahrenheit_heat_properties = JObj [(''heatIndex'', fahrenheit_reading)]"

text \<open>An observation with a wind chill and a heat index, and the text it is rendered to.\<close>

definition chilly_properties :: json where
  "chilly_properties =
     JObj [(''windChill'', JObj [(''value'', JInt (- 5))]),
           (''heatIndex'', JObj [(''value'', JInt 30)])]"

definition chilly_observation :: json where
  "chilly_observation = JObj [(''properties'', chilly_properties)]"

definition chilly_text :: string where
  "chilly_text =
     ''Current Weather for Unknown'' @ nl @ replicate 40 (CHR ''='') @ nl @
     ''Time: Unknown'' @ nl @ ''Conditions: N/A'' @ nl @ ''Temperature: N/A'' @ nl @
     ''Feels Like: 23.0'' @ deg @ ''F (Wind Chill)'' @ nl @
     ''Dewpoint: N/A'' @ nl @ ''Wind: N/A'' @ nl @ ''Humidity: N/A'' @ nl @
     ''Pressure: N/A'' @ nl @ ''Visibility: N/A'' @ nl @ ''Cloud Layers: N/A'' @ nl @
     ''Precipitation (last hour): N/A''"

text \<open>The text of an observation with no fields at all.\<close>

definition bare_text :: string where
  "bare_text =
     ''Current Weather for Unknown'' @ nl @ replicate 40 (CHR ''='') @ nl @
     ''Time: Unknown'' @ nl @ ''Conditions: N/A'' @ nl @ ''Temperature: N/A'' @ nl @
     ''Dewpoint: N/A'' @ nl @ ''Wind: N/A'' @ nl @ ''Humidity: N/A'' @ nl @
     ''Pressure: N/A'' @ nl @ ''Visibility: N/A'' @ nl @ ''Cloud Layers: N/A'' @ nl @
     ''Precipitation (last hour): N/A''"

text \<open>The replies of a station at longitude -121, latitude 36.\<close>

definition station_reply :: json where
  "station_reply =
     JObj [(''geometry'', JObj [(''type'', JStr ''Point''),
                                (''coordinates'', JArr [JInt (- 121), JInt 36])])]"

definition points_reply :: json where
  "points_reply = JObj [(''properties'', JObj [(''forecast'', JStr ''https://f.example/x'')])]"

text \<open>A network whose forecast document is the empty object.\<close>

definition empty_forecast_net :: network where
  "empty_forecast_net history url =
     (if url = ''https://api.weather.gov/stations/KMPR'' then Document station_reply
      else if url = ''https://api.weather.gov/points/36,-121'' then Document points_reply
      else Document (JObj []))"

text \<open>A network that answers every request with a station of one coordinate.\<close>

definition one_coordinate_net :: network where
  "one_coordinate_net history url =
     Document (JObj [(''geometry'', JObj [(''coordinates'', JArr [JInt 36])])])"

text \<open>A network that answers every request with the empty object.\<close>

definition empty_net :: network where
  "empty_net history url = Document (JObj [])"

text \<open>The text of the first 14 and of the first 2 of the numbered periods.\<close>

definition first_14_text :: string where
  "first_14_text =
     ''Weather Forecast'' @ nl @ replicate 40 (CHR ''='') @ nl @ nl @
     ''1:'' @ nl @ ''  Temperature: 51'' @ deg @ ''F'' @ nl @ ''  N/A'' @ nl @ nl @
     ''2:'' @ nl @ ''  Temperature: 52'' @ deg @ ''F'' @ nl @ ''  N/A'' @ nl @ nl @
     ''3:'' @ nl @ ''  Temperature: 53'' @ deg @ ''F'' @ nl @ ''  N/A'' @ nl @ nl @
     ''4:'' @ nl @ ''  Temperature: 54'' @ deg @ ''F'' @ nl @ ''  N/A'' @ nl @ nl @
     ''5:'' @ nl @ ''  Temperature: 55'' @ deg @ ''F'' @ nl @ ''  N/A'' @ nl @ nl @
     ''6:'' @ nl @ ''  Temperature: 56'' @ deg @ ''F'' @ nl @ ''  N/A'' @ nl @ nl @
     ''7:'' @ nl @ ''  Temperature: 57'' @ deg @ ''F'' @ nl @ ''  N/A'' @ nl @ nl @
     ''8:'' @ nl @ ''  Temperature: 58'' @ deg @ ''F'' @ nl @ ''  N/A'' @ nl @ nl @
     ''9:'' @ nl @ ''  Temperature: 59'' @ deg @ ''F'' @ nl @ ''  N/A'' @ nl @ nl @
     ''10:'' @ nl @ ''  Temperature: 60'' @ deg @ ''F'' @ nl @ ''  N/A'' @ nl @ nl @
     ''11:'' @ nl @ ''  Temperature: 61'' @ deg @ ''F'' @ nl @ ''  N/A'' @ nl @ nl @
     ''12:'' @ nl @ ''  Temperature: 62'' @ deg @ ''F'' @ nl @ ''  N/A'' @ nl @ nl @
     ''13:'' @ nl @ ''  Temperature: 63'' @ deg @ ''F'' @ nl @ ''  N/A'' @ nl @ nl @
     ''14:'' @ nl @ ''  Temperature: 64'' @ deg @ ''F'' @ nl @ ''  N/A''"

definition first_2_text :: string where
  "first_2_text =
     ''Weather Forecast'' @ nl @ replicate 40 (CHR ''='') @ nl @ nl @
     ''1:'' @ nl @ ''  Temperature: 51'' @ deg @ ''F'' @ nl @ ''  N/A'' @ nl @ nl @
     ''2:'' @ nl @ ''  Temperature: 52'' @ deg @ ''F'' @ nl @ ''  N/A''"

text \<open>The text of the forecast whose only period has nothing but a name.\<close>

definition sparse_text :: string where
  "sparse_text =
     ''Weather Forecast'' @ nl @ replicate 40 (CHR ''='') @ nl @ nl @
     ''Tonight:'' @ nl @ ''  Temperature: N/A'' @ deg @ ''F'' @ nl @ ''  N/A''"

text \<open>A forecast whose only period is the empty object.\<close>

definition blank_forecast :: json where
  "blank_forecast = JObj [(''properties'', JObj [(''periods'', JArr [JObj []])])]"

text \<open>
  Networks whose station has a geometry of \<^verbatim>\<open>null\<close>, and coordinates of
  \<^verbatim>\<open>null\<close>.
\<close>

definition null_geometry_net :: network where
  "null_geometry_net history url = Document (JObj [(''geometry'', JNull)])"

definition null_coordinates_net :: network where
  "null_coordinates_net history url =
     Document (JObj [(''geometry'', JObj [(''coordinates'', JNull)])])"

section \<open>Properties\<close>

subsection \<open>Helper facts\<close>

lemma and_then_Inr: "and_then m f = Inr y \<longleftrightarrow> (\<exists>x. m = Inr x \<and> f x = Inr y)"
  by (cases m) simp_all

lemma show_nat_digit: "n < 10 \<Longrightarrow> show_nat n = [digit_char n]"
  by (subst show_nat.simps) simp

lemma show_nat_step: "10 \<le> n \<Longrightarrow> show_nat n = show_nat (n div 10) @ [digit_char n]"
  by (subst show_nat.simps) simp

lemma show_nat_length: "Suc 0 \<le> length (show_nat n)"
  by (subst show_nat.simps) simp

text \<open>One decimal: the digits of the tenths, a point before the last of them.\<close>

lemma fixed_digits_1:
  "fixed_digits (Suc 0) q =
     (let k = nat (round_half_even (q * 10))
      in show_nat (k div 10) @ ''.'' @ [digit_char k])"
proof -
  define k where "k = nat (round_half_even (q * 10))"
  show ?thesis
  proof (cases "k < 10")
    case True
    then have "show_nat k = [digit_char k]" "show_nat (k div 10) = ''0''"
      by (simp_all add: show_nat_digit digit_char_def)
    then show ?thesis
      using True by (simp add: fixed_digits_def k_def [symmetric] Let_def)
  next
    case False
    then have s: "show_nat k = show_nat (k div 10) @ [digit_char k]"
      by (simp add: show_nat_step)
    have "Suc 0 \<le> length (show_nat (k div 10))"
      by (rule show_nat_length)
    then show ?thesis
      using False s by (simp add: fixed_digits_def k_def [symmetric] Let_def Suc_diff_le)
  qed
qed

lemma round_half_even_near: "\<bar>of_int (round_half_even r) - r\<bar> \<le> 1 / 2"
proof -
  have "of_int \<lfloor>r\<rfloor> \<le> r" "r < of_int \<lfloor>r\<rfloor> + 1"
    by linarith+
  then show ?thesis
    unfolding round_half_even_def Let_def
    by (auto simp: abs_le_iff)
qed

text \<open>
  The rounding is what its description says: \<open>floor_log2\<close> brackets a positive
  rational between two powers of two, and a finite result of \<open>float_round\<close>
  keeps the sign and lies within half a unit in the last place of the value.
\<close>

lemma pow2_powi: "pow2 e = 2 powi e"
  by (simp add: pow2_def power_int_def inverse_eq_divide power_one_over)

lemma bitlen_bounds_rat:
  assumes "0 < a"
  shows "(2::rat) powi (bitlen a - 1) \<le> of_int a" and "of_int a < (2::rat) powi (bitlen a)"
proof -
  from assms have k: "1 \<le> bitlen a"
    by (simp add: bitlen_alt_def)
  from bitlen_bounds [OF assms]
  have "(2::int) ^ nat (bitlen a - 1) \<le> a" and "a < (2::int) ^ nat (bitlen a)"
    by simp_all
  then have "(of_int ((2::int) ^ nat (bitlen a - 1)) :: rat) \<le> of_int a"
    and "(of_int a :: rat) < of_int ((2::int) ^ nat (bitlen a))"
    by (simp_all only: of_int_le_iff of_int_less_iff)
  with k show "(2::rat) powi (bitlen a - 1) \<le> of_int a"
    and "of_int a < (2::rat) powi (bitlen a)"
    by (simp_all add: power_int_def)
qed

lemma floor_log2_bounds:
  assumes "0 < q"
  shows "pow2 (floor_log2 q) \<le> q \<and> q < pow2 (floor_log2 q + 1)"
proof -
  obtain a b where ab: "quotient_of q = (a, b)"
    by (cases "quotient_of q")
  then have b: "0 < b" and q: "q = of_int a / of_int b"
    by (rule quotient_of_denom_pos, rule quotient_of_div)
  with assms have a: "0 < a"
    by (simp add: zero_less_divide_iff)
  define d where "d = bitlen a - bitlen b"
  note A = bitlen_bounds_rat [OF a] and B = bitlen_bounds_rat [OF b]
  have pos: "(0::rat) < 2 powi k" for k
    by simp
  from a b have nonneg: "(0::rat) \<le> of_int a" "(0::rat) < of_int b"
    by simp_all
  have "(2::rat) powi (d - 1) = 2 powi (bitlen a - 1) / 2 powi (bitlen b)"
    by (simp add: d_def power_int_diff)
  also have "\<dots> \<le> of_int a / of_int b"
    by (rule frac_le [OF nonneg(1) A(1) nonneg(2)]) (rule less_imp_le [OF B(2)])
  finally have lower: "(2::rat) powi (d - 1) \<le> q"
    by (simp add: q)
  have "of_int a / of_int b < (2::rat) powi (bitlen a) / 2 powi (bitlen b - 1)"
    by (rule frac_less [OF nonneg(1) A(2) pos B(1)])
  also have "\<dots> = 2 powi (bitlen a - (bitlen b - 1))"
    by (rule power_int_diff [symmetric]) simp
  also have "bitlen a - (bitlen b - 1) = d + 1"
    by (simp add: d_def)
  finally have upper: "q < (2::rat) powi (d + 1)"
    by (simp add: q)
  have fl: "floor_log2 q = (if 2 powi d \<le> q then d else d - 1)"
    by (simp add: floor_log2_def ab d_def pow2_powi)
  show ?thesis
  proof (cases "2 powi d \<le> q")
    case True
    with fl upper show ?thesis by (simp add: pow2_powi)
  next
    case False
    with fl lower show ?thesis by (simp add: pow2_powi)
  qed
qed
lemma pow2_pos: "0 < pow2 e"
  by (simp add: pow2_def)

lemma float_round_near:
  assumes "float_round s q = Finite t m"
  shows "t = s \<and> \<bar>m - q\<bar> \<le> pow2 (max (floor_log2 q) (- 1022) - 52) / 2"
proof (cases "q = 0")
  case True
  with assms show ?thesis
    using pow2_pos [of "max (floor_log2 0) (- 1022) - 52"] by (simp add: float_round_def)
next
  case False
  define ulp where "ulp = pow2 (max (floor_log2 q) (- 1022) - 52)"
  have ulp: "0 < ulp"
    by (simp add: ulp_def pow2_pos)
  from False assms have t: "t = s" and m: "m = of_int (round_half_even (q / ulp)) * ulp"
    by (simp_all add: float_round_def Let_def ulp_def split: if_splits)
  have "\<bar>of_int (round_half_even (q / ulp)) - q / ulp\<bar> \<le> 1 / 2"
    by (rule round_half_even_near)
  then have "\<bar>of_int (round_half_even (q / ulp)) - q / ulp\<bar> * ulp \<le> 1 / 2 * ulp"
    using ulp by (intro mult_right_mono) simp_all
  moreover have "\<bar>of_int (round_half_even (q / ulp)) - q / ulp\<bar> * ulp = \<bar>m - q\<bar>"
  proof -
    have "(of_int (round_half_even (q / ulp)) - q / ulp) * ulp = m - q"
      using ulp by (simp add: m left_diff_distrib)
    then have "\<bar>m - q\<bar> = \<bar>of_int (round_half_even (q / ulp)) - q / ulp\<bar> * \<bar>ulp\<bar>"
      by (simp only: abs_mult [symmetric])
    with ulp show ?thesis by simp
  qed
  ultimately show ?thesis
    by (simp add: t ulp_def)
qed

lemma truediv_101325: "int_truediv 101325 100 = Inr (Finite False (4053 / 4))"
  by code_simp

lemma round_20265_2: "round_half_even (20265 / 2) = 10132"
  by code_simp

lemma digits_101325: "fixed_digits (Suc 0) (4053 / 4) = ''1013.2''"
  by (simp add: fixed_digits_1 round_20265_2 show_nat_step show_nat_digit digit_char_def)

lemma pressure_standard: "pressure_str standard_pressure = Inr ''1013.2 mb''"
  by (simp add: pressure_str_def standard_pressure_def measurement_def truediv_101325
        digits_101325)

lemma fahrenheit_50: "to_fahrenheit (JInt 50) = Inr (Finite False 122)"
  by code_simp

lemma float_50: "float_of_int 50 = Inr (Finite False 50)"
  by code_simp

lemma digits_122: "fixed_digits (Suc 0) 122 = ''122.0''"
  by (simp add: fixed_digits_1 round_half_even_def show_nat_step show_nat_digit digit_char_def)

lemma digits_50: "fixed_digits (Suc 0) 50 = ''50.0''"
  by (simp add: fixed_digits_1 round_half_even_def show_nat_step show_nat_digit digit_char_def)

lemma fahrenheit_minus_5: "to_fahrenheit (JInt (- 5)) = Inr (Finite False 23)"
  by code_simp

lemma digits_23: "fixed_digits (Suc 0) 23 = ''23.0''"
  by (simp add: fixed_digits_1 round_half_even_def show_nat_step show_nat_digit digit_char_def)

lemma chilly_strings:
  "observation_strings no_repr chilly_observation =
     Inr \<lparr>station = ''Unknown'', timestamp = ''Unknown'', description = ''N/A'',
          temp_s = ''N/A'', feels_like_s = Some (''23.0'' @ deg @ ''F (Wind Chill)''),
          dewpoint_s = ''N/A'', wind_s = ''N/A'', humidity_s = ''N/A'',
          pressure_s = ''N/A'', visibility_s = ''N/A'', cloud_s = ''N/A'',
          precip_s = ''N/A''\<rparr>"
  by (simp add: observation_strings_def chilly_observation_def chilly_properties_def
        temp_str_def wind_str_def humidity_str_def dewpoint_str_def pressure_str_def
        visibility_str_def feels_like_str_def cloud_str_def precip_str_def measurement_def
        fahrenheit_minus_5 digits_23)

lemma bare_strings:
  "observation_strings no_repr (JObj []) =
     Inr \<lparr>station = ''Unknown'', timestamp = ''Unknown'', description = ''N/A'',
          temp_s = ''N/A'', feels_like_s = None,
          dewpoint_s = ''N/A'', wind_s = ''N/A'', humidity_s = ''N/A'',
          pressure_s = ''N/A'', visibility_s = ''N/A'', cloud_s = ''N/A'',
          precip_s = ''N/A''\<rparr>"
  by (simp add: observation_strings_def
        temp_str_def wind_str_def humidity_str_def dewpoint_str_def pressure_str_def
        visibility_str_def feels_like_str_def cloud_str_def precip_str_def measurement_def)

lemma chilly_rendered: "format_current_weather no_repr chilly_observation = Inr chilly_text"
  by (simp add: format_current_weather_def chilly_strings chilly_text_def output_head_def
        output_tail_def feels_like_line_def strip_def is_space_def nl_def deg_def)

lemma bare_rendered: "format_current_weather no_repr (JObj []) = Inr bare_text"
  by (simp add: format_current_weather_def bare_strings bare_text_def output_head_def
        output_tail_def feels_like_line_def strip_def is_space_def nl_def deg_def)

lemma format_current_weather_Inr:
  assumes "format_current_weather repr data = Inr out"
  obtains ob where "observation_strings repr data = Inr ob"
    and "out = strip (output_head ob @ feels_like_line (feels_like_s ob) @ output_tail ob)"
  using assms by (auto simp: format_current_weather_def and_then_Inr)

lemma observation_feels_like:
  assumes "observation_strings repr data = Inr ob"
    and "dict_get data ''properties'' (JObj []) = Inr properties"
  shows "feels_like_str properties = Inr (feels_like_s ob)"
  using assms by (auto simp: observation_strings_def and_then_Inr)

lemma get_current_weather_stdout:
  "stdout (snd (get_current_weather net self w)) = stdout w"
  by (simp add: get_current_weather_def http_get_def print_err_def Let_def
        split: http_reply.splits)

lemma get_forecast_stdout:
  "stdout (snd (get_forecast repr net self w)) = stdout w"
  by (simp add: get_forecast_def http_get_def print_err_def Let_def
        split: http_reply.splits sum.splits prod.splits)

lemma show_121: "show_nat 121 = ''121''"
  by (simp add: show_nat_step show_nat_digit digit_char_def)

lemma show_36: "show_nat 36 = ''36''"
  by (simp add: show_nat_step show_nat_digit digit_char_def)

lemma empty_forecast_fetched:
  "get_forecast no_repr empty_forecast_net (WeatherClient id ''KMPR'') world0 =
     (Inr (Some (JObj [])),
      \<lparr>requested = [''https://api.weather.gov/stations/KMPR'',
                    ''https://api.weather.gov/points/36,-121'',
                    ''https://f.example/x''],
       stdout = [], stderr = []\<rparr>)"
  by (simp add: get_forecast_def http_get_def WeatherClient_def BASE_URL_def world0_def
        empty_forecast_net_def station_reply_def points_reply_def show_int_def
        show_121 show_36)

lemma empty_observation_fetched:
  "get_current_weather empty_net (WeatherClient id ''KMPR'') world0 =
     (Some (JObj []),
      \<lparr>requested = [''https://api.weather.gov/stations/KMPR/observations/latest''],
       stdout = [], stderr = []\<rparr>)"
  by (simp add: get_current_weather_def http_get_def WeatherClient_def BASE_URL_def
        world0_def empty_net_def)

lemma world0_stdout: "stdout world0 = []"
  by (simp add: world0_def)

lemma chilly_lookup:
  "dict_get chilly_observation ''properties'' (JObj []) = Inr chilly_properties"
  "measurement chilly_properties ''windChill'' = Inr (JInt (- 5))"
  "measurement chilly_properties ''heatIndex'' = Inr (JInt 30)"
  by (simp_all add: chilly_observation_def chilly_properties_def measurement_def)

lemma bare_lookup:
  "dict_get (JObj []) ''properties'' (JObj []) = Inr (JObj [])"
  "measurement (JObj []) ''windChill'' = Inr JNull"
  "measurement (JObj []) ''heatIndex'' = Inr JNull"
  by (simp_all add: measurement_def)

lemma forecast_loop_map_err:
  "forecast_loop repr acc ps =
     and_then (map_err (period_text repr) ps) (\<lambda>texts. Inr (acc @ concat texts))"
proof (induction ps arbitrary: acc)
  case Nil
  show ?case by simp
next
  case (Cons p ps)
  show ?case
  proof (cases "period_text repr p")
    case (Inl e)
    then show ?thesis by simp
  next
    case (Inr t)
    then show ?thesis
      by (cases "map_err (period_text repr) ps") (simp_all add: Cons.IH)
  qed
qed

lemma period_text_JObj:
  "period_text repr (JObj kvs) = Inr (
      (case map_of kvs ''name'' of None \<Rightarrow> ''Unknown'' | Some v \<Rightarrow> py_str repr v) @ '':'' @ nl @
      ''  Temperature: '' @
      (case map_of kvs ''temperature'' of None \<Rightarrow> ''N/A'' | Some v \<Rightarrow> py_str repr v) @ deg @
      (case map_of kvs ''temperatureUnit'' of None \<Rightarrow> ''F'' | Some v \<Rightarrow> py_str repr v) @ nl @
      ''  '' @
      (case map_of kvs ''shortForecast'' of None \<Rightarrow> ''N/A'' | Some v \<Rightarrow> py_str repr v) @ nl @
      (case map_of kvs ''detailedForecast'' of
         None \<Rightarrow> []
       | Some v \<Rightarrow> if truthy v then ''  '' @ py_str repr v @ nl else []) @
      nl)"
  by (simp add: period_text_def split: option.splits)

lemma map_err_map_Inr:
  "(\<And>x. f (h x) = Inr (g x)) \<Longrightarrow> map_err f (map h xs) = Inr (map g xs)"
  by (induction xs) simp_all

lemma format_forecast_dicts:
  assumes "dict_get data ''properties'' (JObj []) = Inr properties"
    and "dict_get properties ''periods'' (JArr []) = Inr (JArr periods)"
    and "periods \<noteq> []"
    and "take 14 periods = map JObj shown"
  shows "format_forecast repr data =
           Inr (strip (nl @ ''Weather Forecast'' @ nl @ replicate 40 (CHR ''='') @ nl @ nl @
               concat (map (\<lambda>kvs.
                  (case map_of kvs ''name'' of None \<Rightarrow> ''Unknown'' | Some v \<Rightarrow> py_str repr v) @
                  '':'' @ nl @
                  ''  Temperature: '' @
                  (case map_of kvs ''temperature'' of None \<Rightarrow> ''N/A'' | Some v \<Rightarrow> py_str repr v) @
                  deg @
                  (case map_of kvs ''temperatureUnit'' of None \<Rightarrow> ''F'' | Some v \<Rightarrow> py_str repr v) @
                  nl @
                  ''  '' @
                  (case map_of kvs ''shortForecast'' of None \<Rightarrow> ''N/A'' | Some v \<Rightarrow> py_str repr v) @
                  nl @
                  (case map_of kvs ''detailedForecast'' of
                     None \<Rightarrow> []
                   | Some v \<Rightarrow> if truthy v then ''  '' @ py_str repr v @ nl else []) @
                  nl) shown)))"
proof -
  have "map_err (period_text repr) (map JObj shown) =
          Inr (map (\<lambda>kvs.
                (case map_of kvs ''name'' of None \<Rightarrow> ''Unknown'' | Some v \<Rightarrow> py_str repr v) @
                '':'' @ nl @
                ''  Temperature: '' @
                (case map_of kvs ''temperature'' of None \<Rightarrow> ''N/A'' | Some v \<Rightarrow> py_str repr v) @
                deg @
                (case map_of kvs ''temperatureUnit'' of None \<Rightarrow> ''F'' | Some v \<Rightarrow> py_str repr v) @
                nl @
                ''  '' @
                (case map_of kvs ''shortForecast'' of None \<Rightarrow> ''N/A'' | Some v \<Rightarrow> py_str repr v) @
                nl @
                (case map_of kvs ''detailedForecast'' of
                   None \<Rightarrow> []
                 | Some v \<Rightarrow> if truthy v then ''  '' @ py_str repr v @ nl else []) @
                nl) shown)"
    by (rule map_err_map_Inr) (rule period_text_JObj)
  with assms show ?thesis
    by (simp add: format_forecast_def forecast_loop_map_err forecast_header_def)
qed

lemma shown_periods:
  assumes "take 14 periods = map JObj shown"
  shows "length shown = min 14 (length periods)"
    and "\<forall>i < length shown. periods ! i = JObj (shown ! i)"
proof -
  from assms have "length (take 14 periods) = length (map JObj shown)"
    by simp
  then show len: "length shown = min 14 (length periods)"
    by (simp add: min.commute)
  show "\<forall>i < length shown. periods ! i = JObj (shown ! i)"
  proof (intro allI impI)
    fix i
    assume i: "i < length shown"
    with len have "take 14 periods ! i = periods ! i"
      by simp
    moreover from i have "map JObj shown ! i = JObj (shown ! i)"
      by simp
    ultimately show "periods ! i = JObj (shown ! i)"
      using assms by simp
  qed
qed

lemma show_two_digits:
  "show_nat (Suc 0) = ''1''" "show_nat 2 = ''2''" "show_nat 3 = ''3''" "show_nat 4 = ''4''"
  "show_nat 5 = ''5''" "show_nat 6 = ''6''" "show_nat 7 = ''7''" "show_nat 8 = ''8''"
  "show_nat 9 = ''9''" "show_nat 10 = ''10''" "show_nat 11 = ''11''" "show_nat 12 = ''12''"
  "show_nat 13 = ''13''" "show_nat 14 = ''14''"
  "show_nat 51 = ''51''" "show_nat 52 = ''52''" "show_nat 53 = ''53''" "show_nat 54 = ''54''"
  "show_nat 55 = ''55''" "show_nat 56 = ''56''" "show_nat 57 = ''57''" "show_nat 58 = ''58''"
  "show_nat 59 = ''59''" "show_nat 60 = ''60''" "show_nat 61 = ''61''" "show_nat 62 = ''62''"
  "show_nat 63 = ''63''" "show_nat 64 = ''64''"
  by (simp_all add: show_nat_step show_nat_digit digit_char_def)

text \<open>
  The loop runs over the first 14 periods only; an exception raised by one of
  them is the result.
\<close>

lemma format_forecast_take_14:
  assumes "dict_get data ''properties'' (JObj []) = Inr properties"
    and "dict_get properties ''periods'' (JArr []) = Inr (JArr periods)"
    and "periods \<noteq> []"
  shows "format_forecast repr data =
           and_then (map_err (period_text repr) (take 14 periods))
             (\<lambda>texts. Inr (strip (forecast_header @ concat texts)))"
  using assms
  by (cases "map_err (period_text repr) (take 14 periods)")
     (simp_all add: format_forecast_def forecast_loop_map_err)

subsection \<open>The station code's length\<close>

text \<open>
  C5. A station code whose length is not 4 ends the program with status 1 and
  the length message on standard error; nothing is requested from the network
  and nothing is printed on standard output.
\<close>

theorem main_rejects_wrong_length:
  assumes "length location \<noteq> 4"
  shows "exit_status (fst (main upper repr net location forecast w)) = 1
       \<and> requested (snd (main upper repr net location forecast w)) = requested w
       \<and> stdout (snd (main upper repr net location forecast w)) = stdout w
       \<and> stderr (snd (main upper repr net location forecast w)) =
           stderr w @ [''Error: Station code must be 4 characters (got '' @ [CHR 0x27] @
                       location @ [CHR 0x27] @ '')'']"
  using assms by (simp add: main_def print_err_def)

theorem main_rejects_wrong_length_witness:
  "length ''KMP'' \<noteq> 4
   \<and> exit_status (fst (main id no_repr offline ''KMP'' True world0)) = 1
   \<and> requested (snd (main id no_repr offline ''KMP'' True world0)) = []
   \<and> stdout (snd (main id no_repr offline ''KMP'' True world0)) = []
   \<and> stderr (snd (main id no_repr offline ''KMP'' True world0)) =
       [''Error: Station code must be 4 characters (got '' @ [CHR 0x27] @ ''KMP'' @ [CHR 0x27] @ '')'']"
  using main_rejects_wrong_length [of "''KMP''" id no_repr offline True world0]
  by (simp add: world0_def)

subsection \<open>The forecast renderer\<close>

text \<open>
  C6. When the periods of a forecast document are an empty list (or the document
  has none), the renderer returns exactly \<^verbatim>\<open>No forecast data available\<close>: no
  header, no divider.
\<close>

theorem format_forecast_no_periods:
  assumes "dict_get data ''properties'' (JObj []) = Inr properties"
    and "dict_get properties ''periods'' (JArr []) = Inr (JArr [])"
  shows "format_forecast repr data = Inr ''No forecast data available''"
  using assms by (simp add: format_forecast_def)

theorem format_forecast_no_periods_witness:
  "format_forecast no_repr (numbered_forecast 0) = Inr ''No forecast data available''"
  using format_forecast_no_periods
    [of "numbered_forecast 0" "JObj [(''periods'', JArr [])]" no_repr]
  by (simp add: numbered_forecast_def)

text \<open>
  C7. For a non-empty list of periods whose first 14 entries are dicts, the
  renderer's result is the header followed by the texts of exactly those
  entries, in the order of the list: the first 14 when there are more, all of
  them when there are 14 or fewer. The text of a period is its name line, its
  temperature line, its short forecast, its detailed forecast when there is
  one, and an empty line.
\<close>

theorem format_forecast_first_14:
  assumes "dict_get data ''properties'' (JObj []) = Inr properties"
    and "dict_get properties ''periods'' (JArr []) = Inr (JArr periods)"
    and "periods \<noteq> []"
    and "take 14 periods = map JObj shown"
  shows "format_forecast repr data =
           Inr (strip (nl @ ''Weather Forecast'' @ nl @ replicate 40 (CHR ''='') @ nl @ nl @
               concat (map (\<lambda>kvs.
                  (case map_of kvs ''name'' of None \<Rightarrow> ''Unknown'' | Some v \<Rightarrow> py_str repr v) @
                  '':'' @ nl @
                  ''  Temperature: '' @
                  (case map_of kvs ''temperature'' of None \<Rightarrow> ''N/A'' | Some v \<Rightarrow> py_str repr v) @
                  deg @
                  (case map_of kvs ''temperatureUnit'' of None \<Rightarrow> ''F'' | Some v \<Rightarrow> py_str repr v) @
                  nl @
                  ''  '' @
                  (case map_of kvs ''shortForecast'' of None \<Rightarrow> ''N/A'' | Some v \<Rightarrow> py_str repr v) @
                  nl @
                  (case map_of kvs ''detailedForecast'' of
                     None \<Rightarrow> []
                   | Some v \<Rightarrow> if truthy v then ''  '' @ py_str repr v @ nl else []) @
                  nl) shown)))
       \<and> length shown = min 14 (length periods)
       \<and> (\<forall>i < length shown. periods ! i = JObj (shown ! i))"
  using format_forecast_dicts [OF assms] shown_periods [OF assms(4)]
  by simp

theorem format_forecast_first_14_witness:
  "format_forecast no_repr (numbered_forecast 20) = Inr first_14_text
   \<and> format_forecast no_repr (numbered_forecast 2) = Inr first_2_text"
proof
  show "format_forecast no_repr (numbered_forecast 20) = Inr first_14_text"
    using format_forecast_first_14
      [where data = "numbered_forecast 20"
         and properties = "JObj [(''periods'', JArr (map numbered_period [1..20]))]"
         and periods = "map numbered_period [1..20]"
         and shown = "map (\<lambda>i. [(''name'', JInt i), (''temperature'', JInt (50 + i))]) [1..14]"
         and repr = no_repr]
    by (simp add: numbered_forecast_def numbered_period_def upto.simps show_int_def
          show_two_digits first_14_text_def strip_def is_space_def nl_def deg_def)
  show "format_forecast no_repr (numbered_forecast 2) = Inr first_2_text"
    using format_forecast_first_14
      [where data = "numbered_forecast 2"
         and properties = "JObj [(''periods'', JArr (map numbered_period [1..2]))]"
         and periods = "map numbered_period [1..2]"
         and shown = "map (\<lambda>i. [(''name'', JInt i), (''temperature'', JInt (50 + i))]) [1..2]"
         and repr = no_repr]
    by (simp add: numbered_forecast_def numbered_period_def upto.simps show_int_def
          show_two_digits first_2_text_def strip_def is_space_def nl_def deg_def)
qed

text \<open>
  C10. For a non-empty list of periods whose first 14 entries are dicts, the
  renderer does not fail, and in its text every field a period lacks is
  replaced by its default: the name by \<^verbatim>\<open>Unknown\<close>, the temperature by
  \<^verbatim>\<open>N/A\<close>, the unit by \<^verbatim>\<open>F\<close>, the short forecast by \<^verbatim>\<open>N/A\<close>, the
  detailed forecast by no line at all. A period with no fields is rendered
  with the temperature line \<^verbatim>\<open>N/A\<close>, degree sign, \<^verbatim>\<open>F\<close>.
\<close>

theorem format_forecast_defaults:
  assumes "dict_get data ''properties'' (JObj []) = Inr properties"
    and "dict_get properties ''periods'' (JArr []) = Inr (JArr periods)"
    and "periods \<noteq> []"
    and "take 14 periods = map JObj shown"
  shows "format_forecast repr data =
           Inr (strip (nl @ ''Weather Forecast'' @ nl @ replicate 40 (CHR ''='') @ nl @ nl @
               concat (map (\<lambda>kvs.
                  (case map_of kvs ''name'' of None \<Rightarrow> ''Unknown'' | Some v \<Rightarrow> py_str repr v) @
                  '':'' @ nl @
                  ''  Temperature: '' @
                  (case map_of kvs ''temperature'' of None \<Rightarrow> ''N/A'' | Some v \<Rightarrow> py_str repr v) @
                  deg @
                  (case map_of kvs ''temperatureUnit'' of None \<Rightarrow> ''F'' | Some v \<Rightarrow> py_str repr v) @
                  nl @
                  ''  '' @
                  (case map_of kvs ''shortForecast'' of None \<Rightarrow> ''N/A'' | Some v \<Rightarrow> py_str repr v) @
                  nl @
                  (case map_of kvs ''detailedForecast'' of
                     None \<Rightarrow> []
                   | Some v \<Rightarrow> if truthy v then ''  '' @ py_str repr v @ nl else []) @
                  nl) shown)))
       \<and> format_forecast repr blank_forecast =
           Inr (''Weather Forecast'' @ nl @ replicate 40 (CHR ''='') @ nl @ nl @
                ''Unknown:'' @ nl @ ''  Temperature: N/A'' @ deg @ ''F'' @ nl @ ''  N/A'')"
proof
  show "format_forecast repr data =
           Inr (strip (nl @ ''Weather Forecast'' @ nl @ replicate 40 (CHR ''='') @ nl @ nl @
               concat (map (\<lambda>kvs.
                  (case map_of kvs ''name'' of None \<Rightarrow> ''Unknown'' | Some v \<Rightarrow> py_str repr v) @
                  '':'' @ nl @
                  ''  Temperature: '' @
                  (case map_of kvs ''temperature'' of None \<Rightarrow> ''N/A'' | Some v \<Rightarrow> py_str repr v) @
                  deg @
                  (case map_of kvs ''temperatureUnit'' of None \<Rightarrow> ''F'' | Some v \<Rightarrow> py_str repr v) @
                  nl @
                  ''  '' @
                  (case map_of kvs ''shortForecast'' of None \<Rightarrow> ''N/A'' | Some v \<Rightarrow> py_str repr v) @
                  nl @
                  (case map_of kvs ''detailedForecast'' of
                     None \<Rightarrow> []
                   | Some v \<Rightarrow> if truthy v then ''  '' @ py_str repr v @ nl else []) @
                  nl) shown)))"
    by (rule format_forecast_dicts [OF assms])
  have "format_forecast repr blank_forecast =
           Inr (strip (nl @ ''Weather Forecast'' @ nl @ replicate 40 (CHR ''='') @ nl @ nl @
               concat (map (\<lambda>kvs.
                  (case map_of kvs ''name'' of None \<Rightarrow> ''Unknown'' | Some v \<Rightarrow> py_str repr v) @
                  '':'' @ nl @
                  ''  Temperature: '' @
                  (case map_of kvs ''temperature'' of None \<Rightarrow> ''N/A'' | Some v \<Rightarrow> py_str repr v) @
                  deg @
                  (case map_of kvs ''temperatureUnit'' of None \<Rightarrow> ''F'' | Some v \<Rightarrow> py_str repr v) @
                  nl @
                  ''  '' @
                  (case map_of kvs ''shortForecast'' of None \<Rightarrow> ''N/A'' | Some v \<Rightarrow> py_str repr v) @
                  nl @
                  (case map_of kvs ''detailedForecast'' of
                     None \<Rightarrow> []
                   | Some v \<Rightarrow> if truthy v then ''  '' @ py_str repr v @ nl else []) @
                  nl) [[]])))"
    using format_forecast_dicts
      [where data = blank_forecast and properties = "JObj [(''periods'', JArr [JObj []])]"
         and periods = "[JObj []]" and shown = "[[]]" and repr = repr]
    by (simp add: blank_forecast_def)
  then show "format_forecast repr blank_forecast =
           Inr (''Weather Forecast'' @ nl @ replicate 40 (CHR ''='') @ nl @ nl @
                ''Unknown:'' @ nl @ ''  Temperature: N/A'' @ deg @ ''F'' @ nl @ ''  N/A'')"
    by (simp add: strip_def is_space_def nl_def deg_def)
qed

theorem format_forecast_defaults_witness:
  "format_forecast no_repr sparse_forecast = Inr sparse_text"
  using format_forecast_defaults
    [where data = sparse_forecast
       and properties = "JObj [(''periods'', JArr [JObj [(''name'', JStr ''Tonight'')]])]"
       and periods = "[JObj [(''name'', JStr ''Tonight'')]]"
       and shown = "[[(''name'', JStr ''Tonight'')]]"
       and repr = no_repr]
  by (simp add: sparse_forecast_def sparse_text_def strip_def is_space_def nl_def deg_def)

subsection \<open>The observation renderer\<close>

text \<open>
  C1. Dewpoint, wind chill and heat index are to be converted only when their
  unit code says Celsius, as the temperature is. The code reads the
  unit code of the temperature alone: a reading of 50 marked \<^verbatim>\<open>wmoUnit:degF\<close>
  is rendered unconverted as a temperature, but converted to 122.0 (and, for the
  dewpoint, labelled as 50.0 degrees Celsius) in the three other fields.
\<close>

theorem unit_code_ignored:
  "temp_str fahrenheit_properties = Inr (''50.0'' @ deg @ ''degF'')
   \<and> dewpoint_str fahrenheit_properties = Inr (''122.0'' @ deg @ ''F (50.0'' @ deg @ ''C)'')
   \<and> feels_like_str fahrenheit_properties = Inr (Some (''122.0'' @ deg @ ''F (Wind Chill)''))
   \<and> feels_like_str fahrenheit_heat_properties =
       Inr (Some (''122.0'' @ deg @ ''F (Heat Index)''))"
proof (intro conjI)
  show "temp_str fahrenheit_properties = Inr (''50.0'' @ deg @ ''degF'')"
    by (simp add: temp_str_def fahrenheit_properties_def fahrenheit_reading_def
          float_50 digits_50)
  show "dewpoint_str fahrenheit_properties = Inr (''122.0'' @ deg @ ''F (50.0'' @ deg @ ''C)'')"
    by (simp add: dewpoint_str_def measurement_def fahrenheit_properties_def
          fahrenheit_reading_def fahrenheit_50 float_50 digits_50 digits_122)
  show "feels_like_str fahrenheit_properties = Inr (Some (''122.0'' @ deg @ ''F (Wind Chill)''))"
    by (simp add: feels_like_str_def measurement_def fahrenheit_properties_def
          fahrenheit_reading_def fahrenheit_50 digits_122)
  show "feels_like_str fahrenheit_heat_properties =
       Inr (Some (''122.0'' @ deg @ ''F (Heat Index)''))"
    by (simp add: feels_like_str_def measurement_def fahrenheit_heat_properties_def
          fahrenheit_reading_def fahrenheit_50 digits_122)
qed

text \<open>
  C2, as stated, fails at its own example: 101325 / 100 is the double 1013.25
  exactly, and \<^verbatim>\<open>.1f\<close> rounds the tie to the even digit.
\<close>

theorem pressure_101325_counterexample:
  "pressure_str standard_pressure \<noteq> Inr ''1013.3 mb''"
  by (simp add: pressure_standard)

text \<open>
  C2, amended. A barometric pressure that is a number is divided by 100 and
  rendered by \<^verbatim>\<open>.1f\<close> followed by \<^verbatim>\<open> mb\<close>; for a finite quotient that is
  its sign, the digits of the nearest tenth (ties to the even tenth) and one
  decimal. The input 101325 renders as \<^verbatim>\<open>1013.2 mb\<close>.
\<close>

theorem pressure_str_millibars:
  assumes "measurement properties ''barometricPressure'' = Inr pressure"
    and "as_num pressure = Some n"
    and "num_div_int n 100 = Inr mb"
  shows "pressure_str properties = Inr (format_f 1 mb @ '' mb'')
       \<and> (\<forall>s q. mb = Finite s q \<longrightarrow>
            format_f 1 mb =
              (if s then ''-'' else []) @
              show_nat (nat (round_half_even (q * 10)) div 10) @ ''.'' @
              [digit_char (nat (round_half_even (q * 10)))]
            \<and> \<bar>of_int (round_half_even (q * 10)) / 10 - q\<bar> \<le> 1 / 20)"
proof (intro conjI allI impI)
  from assms(2) have "pressure \<noteq> JNull" by auto
  with assms show "pressure_str properties = Inr (format_f 1 mb @ '' mb'')"
    by (simp add: pressure_str_def)
next
  fix s q
  assume "mb = Finite s q"
  then show "format_f 1 mb =
              (if s then ''-'' else []) @
              show_nat (nat (round_half_even (q * 10)) div 10) @ ''.'' @
              [digit_char (nat (round_half_even (q * 10)))]"
    by (simp add: fixed_digits_1 Let_def)
next
  fix s q
  have "\<bar>of_int (round_half_even (q * 10)) - q * 10\<bar> \<le> 1 / 2"
    by (rule round_half_even_near)
  then show "\<bar>of_int (round_half_even (q * 10)) / 10 - q\<bar> \<le> 1 / 20"
    by linarith
qed

theorem pressure_str_millibars_witness:
  "measurement standard_pressure ''barometricPressure'' = Inr (JInt 101325)
   \<and> num_div_int (PInt 101325) 100 = Inr (Finite False (4053 / 4))
   \<and> pressure_str standard_pressure = Inr ''1013.2 mb''"
  using pressure_str_millibars
    [of standard_pressure "JInt 101325" "PInt 101325" "Finite False (4053 / 4)"]
  by (simp add: standard_pressure_def measurement_def truediv_101325 digits_101325)

text \<open>
  C8. In the text of a rendered observation, when the wind chill and the heat
  index both have a value, the line after the temperature is the feels-like line
  made from the wind chill, and the dewpoint line follows it; when neither has a
  value, the dewpoint line follows the temperature line directly.
\<close>

theorem feels_like_priority:
  assumes "format_current_weather repr data = Inr out"
    and "dict_get data ''properties'' (JObj []) = Inr properties"
    and "measurement properties ''windChill'' = Inr wind_chill"
    and "measurement properties ''heatIndex'' = Inr heat_index"
  shows "\<exists>ob. observation_strings repr data = Inr ob
       \<and> (wind_chill \<noteq> JNull \<and> heat_index \<noteq> JNull \<longrightarrow>
            (\<exists>f. to_fahrenheit wind_chill = Inr f
               \<and> out = strip (output_head ob @
                              nl @ ''Feels Like: '' @ format_f 1 f @ deg @ ''F (Wind Chill)'' @
                              output_tail ob)))
       \<and> (wind_chill = JNull \<and> heat_index = JNull \<longrightarrow>
            out = strip (output_head ob @ output_tail ob))"
proof -
  from assms(1) obtain ob where ob: "observation_strings repr data = Inr ob"
    and out: "out = strip (output_head ob @ feels_like_line (feels_like_s ob) @ output_tail ob)"
    by (rule format_current_weather_Inr)
  from ob assms(2) have fl: "feels_like_str properties = Inr (feels_like_s ob)"
    by (rule observation_feels_like)
  have chill: "\<exists>f. to_fahrenheit wind_chill = Inr f
               \<and> out = strip (output_head ob @
                              nl @ ''Feels Like: '' @ format_f 1 f @ deg @ ''F (Wind Chill)'' @
                              output_tail ob)"
    if "wind_chill \<noteq> JNull"
  proof -
    from fl that assms(3,4) obtain f where f: "to_fahrenheit wind_chill = Inr f"
      and s: "feels_like_s ob = Some (format_f 1 f @ deg @ ''F (Wind Chill)'')"
      by (auto simp: feels_like_str_def and_then_Inr)
    from s have "feels_like_line (feels_like_s ob) =
        nl @ ''Feels Like: '' @ format_f 1 f @ deg @ ''F (Wind Chill)''"
      by (simp add: feels_like_line_def deg_def)
    with out f show ?thesis by simp
  qed
  have none: "out = strip (output_head ob @ output_tail ob)"
    if "wind_chill = JNull" "heat_index = JNull"
  proof -
    from fl that assms(3,4) have "feels_like_s ob = None"
      by (simp add: feels_like_str_def)
    with out show ?thesis by (simp add: feels_like_line_def)
  qed
  from ob chill none show ?thesis by blast
qed

theorem feels_like_priority_witness:
  "format_current_weather no_repr chilly_observation = Inr chilly_text
   \<and> (\<exists>ob f. observation_strings no_repr chilly_observation = Inr ob
         \<and> to_fahrenheit (JInt (- 5)) = Inr f
         \<and> chilly_text = strip (output_head ob @
                                nl @ ''Feels Like: '' @ format_f 1 f @ deg @ ''F (Wind Chill)'' @
                                output_tail ob))
   \<and> format_current_weather no_repr (JObj []) = Inr bare_text
   \<and> (\<exists>ob. observation_strings no_repr (JObj []) = Inr ob
         \<and> bare_text = strip (output_head ob @ output_tail ob))"
  using feels_like_priority [OF chilly_rendered chilly_lookup]
    feels_like_priority [OF bare_rendered bare_lookup]
    chilly_rendered bare_rendered
  by auto

subsection \<open>The resolution chain\<close>

text \<open>
  C3. When the station metadata holds a list of at least two coordinates, the
  second request of \<^verbatim>\<open>get_forecast\<close> is the point lookup, and its path is the
  text of the second coordinate (the latitude), a comma, and the text of the
  first (the longitude): the two values themselves, with no arithmetic applied.
\<close>

theorem points_request_latitude_first:
  assumes "net (requested w) (BASE_URL @ ''/stations/'' @ station_code self) =
             Document station_data"
    and "dict_get station_data ''geometry'' (JObj []) = Inr geometry"
    and "dict_get geometry ''coordinates'' (JArr []) = Inr (JArr coordinates)"
    and "2 \<le> length coordinates"
  shows "\<exists>later. requested (snd (get_forecast repr net self w)) =
           requested w @
           [BASE_URL @ ''/stations/'' @ station_code self,
            BASE_URL @ ''/points/'' @ py_str repr (coordinates ! 1) @ '','' @
              py_str repr (coordinates ! 0)] @ later"
proof -
  from assms(4) have idx: "py_index (JArr coordinates) 0 = Inr (coordinates ! 0)"
    "py_index (JArr coordinates) 1 = Inr (coordinates ! 1)"
    "\<not> length coordinates < 2"
    by auto
  from assms(1-3) idx show ?thesis
    by (simp add: get_forecast_def http_get_def print_err_def Let_def
          split: http_reply.splits sum.splits prod.splits)
qed

theorem points_request_latitude_first_witness:
  "2 \<le> length [JInt (- 121), JInt 36]
   \<and> (\<exists>later.
        requested (snd (get_forecast no_repr empty_forecast_net
                          (WeatherClient id ''KMPR'') world0)) =
          [''https://api.weather.gov/stations/KMPR'',
           ''https://api.weather.gov/points/36,-121''] @ later)"
  using points_request_latitude_first
    [where net = empty_forecast_net and w = world0 and self = "WeatherClient id ''KMPR''"
       and station_data = station_reply
       and geometry = "JObj [(''type'', JStr ''Point''),
                             (''coordinates'', JArr [JInt (- 121), JInt 36])]"
       and coordinates = "[JInt (- 121), JInt 36]" and repr = no_repr]
  by (simp add: empty_forecast_net_def station_reply_def WeatherClient_def BASE_URL_def
        world0_def show_int_def show_121 show_36)

text \<open>
  When the geometry is a dict (or absent) and its coordinates are a list, a
  string or a dict of fewer than two components (or absent),
  \<^verbatim>\<open>get_forecast\<close> returns \<^verbatim>\<open>None\<close>, its only request is the one for the
  station, and its only output is the coordinates message on standard error.
\<close>

lemma missing_coordinates_stop_the_chain:
  assumes "net (requested w) (BASE_URL @ ''/stations/'' @ station_code self) =
             Document station_data"
    and "dict_get station_data ''geometry'' (JObj []) = Inr geometry"
    and "dict_get geometry ''coordinates'' (JArr []) = Inr coordinates"
    and "py_len coordinates = Inr n"
    and "n < 2"
  shows "get_forecast repr net self w =
           (Inr None,
            w\<lparr>requested := requested w @ [BASE_URL @ ''/stations/'' @ station_code self],
              stderr := stderr w @ [''Error: Could not determine station coordinates'']\<rparr>)"
  using assms
  by (simp add: get_forecast_def http_get_def print_err_def Let_def)

lemma missing_coordinates_stop_the_chain_example:
  "py_len (JArr [JInt 36]) = Inr 1
   \<and> get_forecast no_repr one_coordinate_net (WeatherClient id ''KMPR'') world0 =
       (Inr None,
        \<lparr>requested = [''https://api.weather.gov/stations/KMPR''],
         stdout = [],
         stderr = [''Error: Could not determine station coordinates'']\<rparr>)"
  using missing_coordinates_stop_the_chain
    [where net = one_coordinate_net and w = world0 and self = "WeatherClient id ''KMPR''"
       and station_data = "JObj [(''geometry'', JObj [(''coordinates'', JArr [JInt 36])])]"
       and geometry = "JObj [(''coordinates'', JArr [JInt 36])]"
       and coordinates = "JArr [JInt 36]" and n = 1 and repr = no_repr]
  by (simp add: one_coordinate_net_def WeatherClient_def BASE_URL_def world0_def)

text \<open>
  C4. A station whose metadata has fewer than two coordinate components is to
  end the chain with the coordinates message and no document. When the
  geometry, or the coordinates, is \<^verbatim>\<open>null\<close>, the default of \<^verbatim>\<open>get\<close> does not
  apply: \<^verbatim>\<open>geometry.get\<close> raises \<^verbatim>\<open>AttributeError\<close>, or \<^verbatim>\<open>len\<close> raises
  \<^verbatim>\<open>TypeError\<close>, nothing catches it, no message is printed and \<^verbatim>\<open>main\<close> ends
  with the exception. No further request is made in either case.
\<close>

theorem null_geometry_raises:
  "get_forecast no_repr null_geometry_net (WeatherClient id ''KMPR'') world0 =
     (Inl AttributeError,
      \<lparr>requested = [''https://api.weather.gov/stations/KMPR''], stdout = [], stderr = []\<rparr>)
   \<and> get_forecast no_repr null_coordinates_net (WeatherClient id ''KMPR'') world0 =
     (Inl TypeError,
      \<lparr>requested = [''https://api.weather.gov/stations/KMPR''], stdout = [], stderr = []\<rparr>)
   \<and> main id no_repr null_geometry_net ''KMPR'' True world0 =
     (Uncaught AttributeError,
      \<lparr>requested = [''https://api.weather.gov/stations/KMPR''], stdout = [], stderr = []\<rparr>)"
  by (simp add: main_def get_forecast_def http_get_def WeatherClient_def BASE_URL_def
        world0_def null_geometry_net_def null_coordinates_net_def)

subsection \<open>The driver\<close>

text \<open>
  C9. When the fetch of either mode returns a document that is false as a
  condition, such as the empty object, \<^verbatim>\<open>main\<close> ends with
  \<^verbatim>\<open>sys.exit(1)\<close> and standard output is as it was before: no rendered text
  is printed.
\<close>

theorem empty_document_exits:
  assumes "length location = 4" and "\<not> truthy d"
  shows "(get_current_weather net (WeatherClient upper location) w = (Some d, w1) \<longrightarrow>
            fst (main upper repr net location False w) = SysExit 1
          \<and> exit_status (fst (main upper repr net location False w)) = 1
          \<and> stdout (snd (main upper repr net location False w)) = stdout w)
       \<and> (get_forecast repr net (WeatherClient upper location) w = (Inr (Some d), w1) \<longrightarrow>
            fst (main upper repr net location True w) = SysExit 1
          \<and> exit_status (fst (main upper repr net location True w)) = 1
          \<and> stdout (snd (main upper repr net location True w)) = stdout w)"
proof (intro conjI impI)
  assume a: "get_current_weather net (WeatherClient upper location) w = (Some d, w1)"
  have "stdout (snd (get_current_weather net (WeatherClient upper location) w)) = stdout w"
    by (rule get_current_weather_stdout)
  with a have w1: "stdout w1 = stdout w" by simp
  from a assms have m: "main upper repr net location False w = (SysExit 1, w1)"
    by (simp add: main_def show_or_exit_def)
  from m show "fst (main upper repr net location False w) = SysExit 1" by simp
  from m show "exit_status (fst (main upper repr net location False w)) = 1" by simp
  from m w1 show "stdout (snd (main upper repr net location False w)) = stdout w" by simp
next
  assume a: "get_forecast repr net (WeatherClient upper location) w = (Inr (Some d), w1)"
  have "stdout (snd (get_forecast repr net (WeatherClient upper location) w)) = stdout w"
    by (rule get_forecast_stdout)
  with a have w1: "stdout w1 = stdout w" by simp
  from a assms have m: "main upper repr net location True w = (SysExit 1, w1)"
    by (simp add: main_def show_or_exit_def)
  from m show "fst (main upper repr net location True w) = SysExit 1" by simp
  from m show "exit_status (fst (main upper repr net location True w)) = 1" by simp
  from m w1 show "stdout (snd (main upper repr net location True w)) = stdout w" by simp
qed

theorem empty_document_exits_witness:
  "\<not> truthy (JObj [])
   \<and> fst (main id no_repr empty_net ''KMPR'' False world0) = SysExit 1
   \<and> stdout (snd (main id no_repr empty_net ''KMPR'' False world0)) = []
   \<and> fst (main id no_repr empty_forecast_net ''KMPR'' True world0) = SysExit 1
   \<and> stdout (snd (main id no_repr empty_forecast_net ''KMPR'' True world0)) = []"
  using empty_document_exits
    [where location = "''KMPR''" and d = "JObj []" and net = empty_net and upper = id
       and w = world0 and repr = no_repr
       and ?w1.0 = "\<lparr>requested = [''https://api.weather.gov/stations/KMPR/observations/latest''],
                      stdout = [], stderr = []\<rparr>"]
    empty_document_exits
    [where location = "''KMPR''" and d = "JObj []" and net = empty_forecast_net
       and upper = id and w = world0 and repr = no_repr
       and ?w1.0 = "\<lparr>requested = [''https://api.weather.gov/stations/KMPR'',
                                     ''https://api.weather.gov/points/36,-121'',
                                     ''https://f.example/x''],
                      stdout = [], stderr = []\<rparr>"]
  by (simp add: empty_observation_fetched empty_forecast_fetched world0_stdout)

end
